theory Spec2Isabelle
  imports Main "HOL-Library.Multiset"
begin

section \<open>Go standard-library string and path helpers used by the services\<close>

text \<open>
  Go strings are byte sequences; they are modelled as \<open>string\<close> (a list of
  8-bit characters).  Only the library functions the repository calls are
  modelled, each by the result the Go documentation gives for it.
\<close>

fun strings_HasPrefix :: "string \<Rightarrow> string \<Rightarrow> bool" where
  "strings_HasPrefix s [] = True"
| "strings_HasPrefix [] (p # ps) = False"
| "strings_HasPrefix (c # cs) (p # ps) = (c = p \<and> strings_HasPrefix cs ps)"

definition strings_HasSuffix :: "string \<Rightarrow> string \<Rightarrow> bool" where
  "strings_HasSuffix s suf = strings_HasPrefix (rev s) (rev suf)"

text \<open>\<open>strings.Index\<close>: the byte offset of the first occurrence, \<open>None\<close> for -1.\<close>

fun strings_Index :: "string \<Rightarrow> string \<Rightarrow> nat option" where
  "strings_Index [] sub = (if sub = [] then Some 0 else None)"
| "strings_Index (c # cs) sub =
     (if strings_HasPrefix (c # cs) sub then Some 0
      else map_option Suc (strings_Index cs sub))"

definition strings_TrimPrefix :: "string \<Rightarrow> string \<Rightarrow> string" where
  "strings_TrimPrefix s p = (if strings_HasPrefix s p then drop (length p) s else s)"

definition strings_TrimSuffix :: "string \<Rightarrow> string \<Rightarrow> string" where
  "strings_TrimSuffix s suf =
     (if strings_HasSuffix s suf then take (length s - length suf) s else s)"

text \<open>
  \<open>strings.SplitN(s, sep, 2)\<close> for a non-empty separator: at most two pieces,
  cut at the first occurrence of the separator.
\<close>

definition strings_SplitN_2 :: "string \<Rightarrow> string \<Rightarrow> string list" where
  "strings_SplitN_2 s sep =
     (case strings_Index s sep of
        None \<Rightarrow> [s]
      | Some i \<Rightarrow> [take i s, drop (i + length sep) s])"

section \<open>Supabase storage: public URLs and their parsing\<close>

record SupabaseUploadService =
  bucket :: string
  supabaseURL :: string
  projectID :: string
  apiKey :: string

subsection \<open>The variant that builds the URL from the project id\<close>

definition extractFilePathFromURL :: "SupabaseUploadService \<Rightarrow> string \<Rightarrow> string" where
  "extractFilePathFromURL s fileURL =
     (let prefix = ''/storage/v1/object/public/'' in
      case strings_Index fileURL prefix of
        None \<Rightarrow> ''''
      | Some idx \<Rightarrow>
          (let pathWithBucket = drop (idx + length prefix) fileURL;
               parts = strings_SplitN_2 pathWithBucket ''/''
           in if length parts < 2 then '''' else parts ! 1))"

definition GetPublicURL :: "SupabaseUploadService \<Rightarrow> string \<Rightarrow> string" where
  "GetPublicURL s filePath =
     (if projectID s = '''' then ''''
      else ''https://'' @ projectID s @ ''.supabase.co/storage/v1/object/public/''
             @ bucket s @ ''/'' @ strings_TrimPrefix filePath ''/'')"

subsection \<open>The variant that builds the URL from the configured base URL\<close>

fun extractFilePathFromURL_loop ::
  "SupabaseUploadService \<Rightarrow> string \<Rightarrow> string list \<Rightarrow> string" where
  "extractFilePathFromURL_loop s fileURL [] = ''''"
| "extractFilePathFromURL_loop s fileURL (prefix # prefixes) =
     (case strings_Index fileURL prefix of
        None \<Rightarrow> extractFilePathFromURL_loop s fileURL prefixes
      | Some idx \<Rightarrow>
          (let pathWithBucket = drop (idx + length prefix) fileURL;
               parts = strings_SplitN_2 pathWithBucket ''/''
           in if length parts = 2 \<and> parts ! 0 = bucket s then parts ! 1
              else extractFilePathFromURL_loop s fileURL prefixes))"

definition extractFilePathFromURL_base :: "SupabaseUploadService \<Rightarrow> string \<Rightarrow> string" where
  "extractFilePathFromURL_base s fileURL =
     extractFilePathFromURL_loop s fileURL
       [''/storage/v1/object/public/'', ''storage/v1/object/public/'']"

definition GetPublicURL_base :: "SupabaseUploadService \<Rightarrow> string \<Rightarrow> string" where
  "GetPublicURL_base s filePath =
     strings_TrimSuffix (supabaseURL s) ''/'' @ ''/storage/v1/object/public/''
       @ bucket s @ ''/'' @ strings_TrimPrefix filePath ''/''"

section \<open>Experience aggregate: data model\<close>

text \<open>
  A \<open>uuid.UUID\<close> is a 128-bit value; only equality and the zero value
  \<open>uuid.Nil\<close> matter here, so it is modelled as a natural number with
  \<open>uuid.Nil = 0\<close>.
\<close>

type_synonym uuid = nat

definition uuid_Nil :: uuid where
  "uuid_Nil = 0"

text \<open>
  Modelled from the spec: the package \<open>experiences/model\<close> that declares
  \<open>Experience\<close>, \<open>ExperienceResponsibility\<close> and \<open>ExperienceSkill\<close> is not
  part of the sources.  The fields are the columns the repository scans
  (\<open>GetAllExperience\<close>, \<open>getResponsibilitiesByExperienceIDs\<close>,
  \<open>getSkillsByExperienceIDs\<close>); the display order of a skill is the explicit
  integer order field the spec's data model gives to every child row.
\<close>

record ExperienceResponsibility =
  resp_ID :: uuid
  resp_ExperienceID :: uuid
  resp_Description :: string
  resp_DisplayOrder :: int
  resp_CreatedAt :: nat

record ExperienceSkill =
  skill_ExperienceID :: uuid
  skill_SkillName :: string
  skill_DisplayOrder :: int

record Experience =
  exp_ID :: uuid
  exp_Title :: string
  exp_Company :: string
  exp_Location :: string
  exp_StartYears :: int
  exp_EndYears :: int
  exp_CurrentJob :: bool
  exp_DisplayOrder :: int
  exp_CreatedAt :: nat
  exp_UpdatedAt :: nat
  Responsibilities :: "ExperienceResponsibility list"
  Skills :: "ExperienceSkill list"

text \<open>
  The three tables.  A table is the list of its rows in storage order; the row
  of an experience carries no children.  The primary key of
  \<open>portfolio_experiences\<close> and of \<open>experience_responsibilities\<close> is the id,
  the unique key of \<open>experience_skills\<close> is the pair (experience id, skill
  name) named by the conflict clause of the repository.
\<close>

record DB =
  portfolio_experiences :: "Experience list"
  experience_responsibilities :: "ExperienceResponsibility list"
  experience_skills :: "ExperienceSkill list"

datatype db_error = ErrRecordNotFound | ErrDuplicatedKey | ErrConnection

text \<open>
  What the database decides during one repository call: which statement of the
  call fails for a reason outside the program (statements are numbered in the
  order the call issues them), and the ids it generates for rows inserted with
  the zero id (index 0 for the parent, \<open>i + 1\<close> for the \<open>i\<close>-th child row).
\<close>

record tx_env =
  stmt_fails :: "nat \<Rightarrow> bool"
  gen_uuid :: "nat \<Rightarrow> uuid"

section \<open>Experience aggregate: the statements GORM issues\<close>

text \<open>
  Each GORM call of the repository is modelled as the single-table statement
  it names: \<open>Create\<close> and \<open>Save\<close> of an experience write the parent row,
  \<open>Create\<close> of a child slice is one multi-row insert, \<open>Where(...).Delete\<close>
  removes the matching rows and reports no error when there are none.
\<close>

definition experience_row :: "Experience \<Rightarrow> Experience" where
  "experience_row e = e\<lparr>Responsibilities := [], Skills := []\<rparr>"

definition find_experience :: "uuid \<Rightarrow> DB \<Rightarrow> Experience option" where
  "find_experience i db = find (\<lambda>e. exp_ID e = i) (portfolio_experiences db)"

definition gorm_Create_experience ::
  "tx_env \<Rightarrow> nat \<Rightarrow> Experience \<Rightarrow> DB \<Rightarrow> db_error + (Experience \<times> DB)" where
  "gorm_Create_experience env n e db =
     (if stmt_fails env n then Inl ErrConnection
      else let e' = (if exp_ID e = uuid_Nil then e\<lparr>exp_ID := gen_uuid env 0\<rparr> else e) in
        if exp_ID e' \<in> set (map exp_ID (portfolio_experiences db)) then Inl ErrDuplicatedKey
        else Inr (e', db\<lparr>portfolio_experiences :=
                           portfolio_experiences db @ [experience_row e']\<rparr>))"

text \<open>\<open>Save\<close> inserts when the id is zero and otherwise overwrites the row or inserts it.\<close>

definition gorm_Save_experience ::
  "tx_env \<Rightarrow> nat \<Rightarrow> Experience \<Rightarrow> DB \<Rightarrow> db_error + (Experience \<times> DB)" where
  "gorm_Save_experience env n e db =
     (if exp_ID e = uuid_Nil then gorm_Create_experience env n e db
      else if stmt_fails env n then Inl ErrConnection
      else if exp_ID e \<in> set (map exp_ID (portfolio_experiences db))
        then Inr (e, db\<lparr>portfolio_experiences :=
                          map (\<lambda>r. if exp_ID r = exp_ID e then experience_row e else r)
                            (portfolio_experiences db)\<rparr>)
        else Inr (e, db\<lparr>portfolio_experiences :=
                          portfolio_experiences db @ [experience_row e]\<rparr>))"

fun assign_ids_from ::
  "(nat \<Rightarrow> uuid) \<Rightarrow> nat \<Rightarrow> ExperienceResponsibility list \<Rightarrow> ExperienceResponsibility list" where
  "assign_ids_from gen i [] = []"
| "assign_ids_from gen i (r # rs) =
     (if resp_ID r = uuid_Nil then r\<lparr>resp_ID := gen (Suc i)\<rparr> else r)
       # assign_ids_from gen (Suc i) rs"

definition assign_ids ::
  "(nat \<Rightarrow> uuid) \<Rightarrow> ExperienceResponsibility list \<Rightarrow> ExperienceResponsibility list" where
  "assign_ids gen rs = assign_ids_from gen 0 rs"

definition gorm_Create_responsibilities ::
  "tx_env \<Rightarrow> nat \<Rightarrow> ExperienceResponsibility list \<Rightarrow> DB
     \<Rightarrow> db_error + (ExperienceResponsibility list \<times> DB)" where
  "gorm_Create_responsibilities env n rs db =
     (if stmt_fails env n then Inl ErrConnection
      else let rs' = assign_ids (gen_uuid env) rs in
        if \<not> distinct (map resp_ID rs')
           \<or> set (map resp_ID rs') \<inter> set (map resp_ID (experience_responsibilities db)) \<noteq> {}
        then Inl ErrDuplicatedKey
        else Inr (rs', db\<lparr>experience_responsibilities :=
                            experience_responsibilities db @ rs'\<rparr>))"

definition skill_key :: "ExperienceSkill \<Rightarrow> uuid \<times> string" where
  "skill_key s = (skill_ExperienceID s, skill_SkillName s)"

text \<open>
  The multi-row insert with \<open>ON CONFLICT (experience_id, skill_name) DO
  NOTHING\<close>: a row whose key is already in the table, or was inserted by an
  earlier row of the same statement, is skipped.
\<close>

fun insert_skills_ignore :: "ExperienceSkill list \<Rightarrow> ExperienceSkill list \<Rightarrow> ExperienceSkill list" where
  "insert_skills_ignore tbl [] = tbl"
| "insert_skills_ignore tbl (s # ss) =
     insert_skills_ignore
       (if skill_key s \<in> set (map skill_key tbl) then tbl else tbl @ [s]) ss"

definition gorm_Create_skills_OnConflict ::
  "tx_env \<Rightarrow> nat \<Rightarrow> ExperienceSkill list \<Rightarrow> DB \<Rightarrow> db_error + DB" where
  "gorm_Create_skills_OnConflict env n ss db =
     (if stmt_fails env n then Inl ErrConnection
      else Inr (db\<lparr>experience_skills := insert_skills_ignore (experience_skills db) ss\<rparr>))"

definition gorm_Delete_responsibilities :: "tx_env \<Rightarrow> nat \<Rightarrow> uuid \<Rightarrow> DB \<Rightarrow> db_error + DB" where
  "gorm_Delete_responsibilities env n i db =
     (if stmt_fails env n then Inl ErrConnection
      else Inr (db\<lparr>experience_responsibilities :=
                     filter (\<lambda>r. resp_ExperienceID r \<noteq> i) (experience_responsibilities db)\<rparr>))"

definition gorm_Delete_skills :: "tx_env \<Rightarrow> nat \<Rightarrow> uuid \<Rightarrow> DB \<Rightarrow> db_error + DB" where
  "gorm_Delete_skills env n i db =
     (if stmt_fails env n then Inl ErrConnection
      else Inr (db\<lparr>experience_skills :=
                     filter (\<lambda>s. skill_ExperienceID s \<noteq> i) (experience_skills db)\<rparr>))"

definition gorm_Delete_experience :: "tx_env \<Rightarrow> nat \<Rightarrow> uuid \<Rightarrow> DB \<Rightarrow> db_error + DB" where
  "gorm_Delete_experience env n i db =
     (if stmt_fails env n then Inl ErrConnection
      else Inr (db\<lparr>portfolio_experiences :=
                     filter (\<lambda>e. exp_ID e \<noteq> i) (portfolio_experiences db)\<rparr>))"

text \<open>
  \<open>db.Transaction\<close>: the body runs on the database; when it returns an error,
  or the commit (statement \<open>c\<close>) fails, the database is left as it was.
\<close>

definition Transaction ::
  "tx_env \<Rightarrow> nat \<Rightarrow> (DB \<Rightarrow> db_error + ('a \<times> DB)) \<Rightarrow> DB \<Rightarrow> (db_error + 'a) \<times> DB" where
  "Transaction env c body db =
     (case body db of
        Inl err \<Rightarrow> (Inl err, db)
      | Inr (x, db') \<Rightarrow> if stmt_fails env c then (Inl ErrConnection, db) else (Inr x, db'))"

section \<open>Experience aggregate: the repository\<close>

text \<open>
  The repository methods return an error and fill the experience they are
  given through its pointer; the model returns the filled experience in the
  success case.
\<close>

definition stamp_responsibilities ::
  "uuid \<Rightarrow> ExperienceResponsibility list \<Rightarrow> ExperienceResponsibility list" where
  "stamp_responsibilities i rs = map (\<lambda>r. r\<lparr>resp_ExperienceID := i, resp_ID := uuid_Nil\<rparr>) rs"


definition stamp_skills :: "uuid \<Rightarrow> ExperienceSkill list \<Rightarrow> ExperienceSkill list" where
  "stamp_skills i ss = map (\<lambda>s. s\<lparr>skill_ExperienceID := i\<rparr>) ss"

definition CreateExperienceWithRelations_body ::
  "tx_env \<Rightarrow> Experience \<Rightarrow> DB \<Rightarrow> db_error + (Experience \<times> DB)" where
  "CreateExperienceWithRelations_body env experience tx =
     (case gorm_Create_experience env 0 experience tx of
        Inl err \<Rightarrow> Inl err
      | Inr (e1, tx1) \<Rightarrow>
          (let rs = stamp_responsibilities (exp_ID e1) (Responsibilities e1) in
           case (if length rs > 0 then gorm_Create_responsibilities env 1 rs tx1
                 else Inr (rs, tx1)) of
             Inl err \<Rightarrow> Inl err
           | Inr (rs', tx2) \<Rightarrow>
               (let ss = stamp_skills (exp_ID e1) (Skills e1) in
                case (if length ss > 0 then gorm_Create_skills_OnConflict env 2 ss tx2
                      else Inr tx2) of
                  Inl err \<Rightarrow> Inl err
                | Inr tx3 \<Rightarrow> Inr (e1\<lparr>Responsibilities := rs', Skills := ss\<rparr>, tx3))))"

definition CreateExperienceWithRelations ::
  "tx_env \<Rightarrow> Experience \<Rightarrow> DB \<Rightarrow> (db_error + Experience) \<times> DB" where
  "CreateExperienceWithRelations env experience db =
     Transaction env 3 (CreateExperienceWithRelations_body env experience) db"

text \<open>
  \<open>Preload("Responsibilities", Order(display_order ASC))\<close>, \<open>Preload("Skills")\<close>
  and \<open>First\<close>.  The responsibilities are ordered by display order (ties in
  storage order); no order is asked for the skills, which are taken in storage
  order.
\<close>

definition GetExperienceByIDWithRelations ::
  "tx_env \<Rightarrow> uuid \<Rightarrow> DB \<Rightarrow> db_error + Experience" where
  "GetExperienceByIDWithRelations env experienceID db =
     (if stmt_fails env 0 then Inl ErrConnection
      else case find_experience experienceID db of
        None \<Rightarrow> Inl ErrRecordNotFound
      | Some e \<Rightarrow>
          Inr (e\<lparr>Responsibilities :=
                    sort_key resp_DisplayOrder
                      (filter (\<lambda>r. resp_ExperienceID r = experienceID)
                         (experience_responsibilities db)),
                  Skills :=
                    filter (\<lambda>s. skill_ExperienceID s = experienceID)
                      (experience_skills db)\<rparr>))"

definition UpdateExperienceWithRelations_body ::
  "tx_env \<Rightarrow> Experience \<Rightarrow> DB \<Rightarrow> db_error + (Experience \<times> DB)" where
  "UpdateExperienceWithRelations_body env experience tx =
     (case gorm_Save_experience env 0 experience tx of
        Inl err \<Rightarrow> Inl err
      | Inr (e1, tx1) \<Rightarrow>
          (case gorm_Delete_responsibilities env 1 (exp_ID e1) tx1 of
             Inl err \<Rightarrow> Inl err
           | Inr tx2 \<Rightarrow>
               (case (if length (Responsibilities e1) > 0
                      then gorm_Create_responsibilities env 2
                             (stamp_responsibilities (exp_ID e1) (Responsibilities e1)) tx2
                      else Inr (Responsibilities e1, tx2)) of
                  Inl err \<Rightarrow> Inl err
                | Inr (rs', tx3) \<Rightarrow>
                    (case gorm_Delete_skills env 3 (exp_ID e1) tx3 of
                       Inl err \<Rightarrow> Inl err
                     | Inr tx4 \<Rightarrow>
                         (if length (Skills e1) > 0
                          then (let ss = stamp_skills (exp_ID e1) (Skills e1) in
                                case gorm_Create_skills_OnConflict env 4 ss tx4 of
                                  Inl err \<Rightarrow> Inl err
                                | Inr tx5 \<Rightarrow>
                                    Inr (e1\<lparr>Responsibilities := rs', Skills := ss\<rparr>, tx5))
                          else Inr (e1\<lparr>Responsibilities := rs'\<rparr>, tx4))))))"

definition UpdateExperienceWithRelations ::
  "tx_env \<Rightarrow> Experience \<Rightarrow> DB \<Rightarrow> (db_error + Experience) \<times> DB" where
  "UpdateExperienceWithRelations env experience db =
     Transaction env 5 (UpdateExperienceWithRelations_body env experience) db"

definition DeleteExperienceWithRelations_body ::
  "tx_env \<Rightarrow> uuid \<Rightarrow> DB \<Rightarrow> db_error + (unit \<times> DB)" where
  "DeleteExperienceWithRelations_body env experienceID tx =
     (case gorm_Delete_skills env 0 experienceID tx of
        Inl err \<Rightarrow> Inl err
      | Inr tx1 \<Rightarrow>
          (case gorm_Delete_responsibilities env 1 experienceID tx1 of
             Inl err \<Rightarrow> Inl err
           | Inr tx2 \<Rightarrow>
               (case gorm_Delete_experience env 2 experienceID tx2 of
                  Inl err \<Rightarrow> Inl err
                | Inr tx3 \<Rightarrow> Inr ((), tx3))))"

definition DeleteExperienceWithRelations ::
  "tx_env \<Rightarrow> uuid \<Rightarrow> DB \<Rightarrow> (db_error + unit) \<times> DB" where
  "DeleteExperienceWithRelations env experienceID db =
     Transaction env 3 (DeleteExperienceWithRelations_body env experienceID) db"


section \<open>File paths\<close>

text \<open>
  \<open>strings.ToLower\<close> on the ASCII letters.  Go also lowers letters outside
  ASCII; no allowed extension contains one, so the outcome of the extension
  checks below does not depend on them.
\<close>

definition toLower_char :: "char \<Rightarrow> char" where
  "toLower_char c =
     (case map_of (zip ''ABCDEFGHIJKLMNOPQRSTUVWXYZ'' ''abcdefghijklmnopqrstuvwxyz'') c of
        Some l \<Rightarrow> l
      | None \<Rightarrow> c)"

definition strings_ToLower :: "string \<Rightarrow> string" where
  "strings_ToLower s = map toLower_char s"

fun split_on :: "char \<Rightarrow> string \<Rightarrow> string list" where
  "split_on c [] = [[]]"
| "split_on c (x # xs) =
     (if x = c then [] # split_on c xs
      else (case split_on c xs of w # ws \<Rightarrow> (x # w) # ws | [] \<Rightarrow> [[x]]))"

text \<open>
  \<open>filepath.Clean\<close> on the elements of a slash-separated path: empty and
  \<open>.\<close> elements are dropped, \<open>..\<close> removes the element before it, is dropped
  at the root, and is kept at the start of a relative path.  The stack holds
  the kept elements, last one first.
\<close>

fun clean_elems :: "bool \<Rightarrow> string list \<Rightarrow> string list \<Rightarrow> string list" where
  "clean_elems rooted st [] = rev st"
| "clean_elems rooted st (e # es) =
     (if e = [] \<or> e = ''.'' then clean_elems rooted st es
      else if e = ''..'' then
        (case st of
           [] \<Rightarrow> if rooted then clean_elems rooted [] es else clean_elems rooted [''..''] es
         | t # ts \<Rightarrow> if t = ''..'' then clean_elems rooted (''..'' # st) es
                     else clean_elems rooted ts es)
      else clean_elems rooted (e # st) es)"

fun join_slash :: "string list \<Rightarrow> string" where
  "join_slash [] = []"
| "join_slash [x] = x"
| "join_slash (x # y # ys) = x @ ''/'' @ join_slash (y # ys)"

definition filepath_Clean :: "string \<Rightarrow> string" where
  "filepath_Clean p =
     (if p = [] then ''.''
      else let rooted = (hd p = CHR ''/'');
               out = join_slash (clean_elems rooted [] (split_on (CHR ''/'') p))
           in if rooted then ''/'' @ out else if out = [] then ''.'' else out)"

text \<open>\<open>filepath.Join\<close> of two elements: empty elements are ignored, the result is cleaned.\<close>

definition filepath_Join :: "string \<Rightarrow> string \<Rightarrow> string" where
  "filepath_Join a b =
     (if a = [] \<and> b = [] then []
      else if a = [] then filepath_Clean b
      else if b = [] then filepath_Clean a
      else filepath_Clean (a @ ''/'' @ b))"

text \<open>
  \<open>filepath.Base\<close>: the last element of the path after trailing slashes are
  removed; \<open>.\<close> for the empty path and \<open>/\<close> for a path of slashes only.
\<close>

definition filepath_Base :: "string \<Rightarrow> string" where
  "filepath_Base p =
     (if p = [] then ''.''
      else let q = rev (dropWhile (\<lambda>c. c = CHR ''/'') (rev p));
               b = rev (takeWhile (\<lambda>c. c \<noteq> CHR ''/'') (rev q))
           in if b = [] then ''/'' else b)"

text \<open>
  \<open>filepath.Ext\<close>: the suffix that starts at the last dot of the last element,
  empty when that element has no dot.
\<close>

definition filepath_Ext :: "string \<Rightarrow> string" where
  "filepath_Ext p =
     (let t = takeWhile (\<lambda>c. c \<noteq> CHR ''/'') (rev p)
      in if CHR ''.'' \<in> set t then CHR ''.'' # rev (takeWhile (\<lambda>c. c \<noteq> CHR ''.'') t)
         else [])"

section \<open>Services: requests, the world they act on, and its effects\<close>

record FileHeader =
  Filename :: string
  Size :: int

text \<open>
  \<open>ctx.FormFile\<close> gives a file, \<open>http.ErrMissingFile\<close>, or another error.
\<close>

datatype form_file = MissingFile | FormFileError | FormFile FileHeader

datatype repo_op = OpCreate | OpGet | OpUpdate | OpDelete

text \<open>
  An error of a service is the error of the repository or of the JSON binding
  handed on as it is, or a new error with a message (the formatted cause is
  left out of the message).
\<close>

datatype repo_error = ErrNotFound | ErrNoRows | ErrDatabase

datatype svc_error = RepoError repo_error | BindError | Message string

text \<open>
  Everything a service call reads from outside the program: the request (path
  parameter parsed by \<open>uuid.Parse\<close>, bound form with \<open>None\<close> for a binding
  error, the multipart file), the value of \<open>uuid.New().String()\<close>, and which
  calls to the file system and to the database fail.
\<close>

record 'f request =
  param_id :: "uuid option"
  bound_form :: "'f option"
  form_file :: form_file
  new_uuid :: string
  mkdir_fails :: bool
  save_fails :: bool
  remove_fails :: "string \<Rightarrow> bool"
  repo_fails :: "repo_op \<Rightarrow> bool"
  gen_id :: uuid
  now :: nat

text \<open>The calls that touch the file system or the repository, in the order they are made.\<close>

datatype event =
    OsMkdirAll string bool
  | SaveUploadedFile string bool
  | OsRemove string bool
  | Repo repo_op bool

text \<open>
  The world of a service: the files on disk (by path), the rows of its table,
  and the trace of the calls made so far (each with its success).
\<close>

record 'e world =
  files :: "string set"
  rows :: "'e list"
  trace :: "event list"

definition log_event :: "event \<Rightarrow> 'e world \<Rightarrow> 'e world" where
  "log_event ev w = w\<lparr>trace := trace w @ [ev]\<rparr>"

definition os_MkdirAll :: "'f request \<Rightarrow> string \<Rightarrow> 'e world \<Rightarrow> bool \<times> 'e world" where
  "os_MkdirAll req dir w = (\<not> mkdir_fails req, log_event (OsMkdirAll dir (\<not> mkdir_fails req)) w)"

definition ctx_SaveUploadedFile :: "'f request \<Rightarrow> string \<Rightarrow> 'e world \<Rightarrow> bool \<times> 'e world" where
  "ctx_SaveUploadedFile req dst w =
     (if save_fails req then (False, log_event (SaveUploadedFile dst False) w)
      else (True, log_event (SaveUploadedFile dst True) (w\<lparr>files := insert dst (files w)\<rparr>)))"

text \<open>\<open>os.Remove\<close> fails when the file is not there or the file system refuses.\<close>

definition os_Remove :: "'f request \<Rightarrow> string \<Rightarrow> 'e world \<Rightarrow> bool \<times> 'e world" where
  "os_Remove req path w =
     (if path \<in> files w \<and> \<not> remove_fails req path
      then (True, log_event (OsRemove path True) (w\<lparr>files := files w - {path}\<rparr>))
      else (False, log_event (OsRemove path False) w))"

definition os_Stat_exists :: "string \<Rightarrow> 'e world \<Rightarrow> bool" where
  "os_Stat_exists path w \<longleftrightarrow> path \<in> files w"

section \<open>Projects: repository\<close>

text \<open>
  Modelled from the spec: the package \<open>Project/model\<close> that declares
  \<open>Project\<close>, \<open>ProjectForm\<close> and \<open>ProjectUpdateForm\<close> is not part of the
  sources.  The fields are the columns of \<open>portfolio_projects\<close> the repository
  reads and writes and the form fields the service reads; the tags of a
  project play no part in the calls below and are left out.
\<close>

record Project =
  proj_ID :: uuid
  proj_Title :: string
  proj_Description :: string
  proj_ImageURL :: string
  proj_DemoURL :: string
  proj_CodeURL :: string
  proj_DisplayOrder :: int
  proj_IsFeatured :: bool
  proj_Status :: string
  proj_CreatedAt :: nat
  proj_UpdatedAt :: nat

record ProjectForm =
  pf_Title :: string
  pf_Description :: string
  pf_DemoURL :: string
  pf_CodeURL :: string
  pf_DisplayOrder :: int
  pf_IsFeatured :: bool
  pf_Status :: string

definition empty_Project :: Project where
  "empty_Project = \<lparr>proj_ID = uuid_Nil, proj_Title = [], proj_Description = [],
     proj_ImageURL = [], proj_DemoURL = [], proj_CodeURL = [], proj_DisplayOrder = 0,
     proj_IsFeatured = False, proj_Status = [], proj_CreatedAt = 0, proj_UpdatedAt = 0\<rparr>"

definition CreateProjekRepository ::
  "'f request \<Rightarrow> Project \<Rightarrow> Project world \<Rightarrow> (repo_error + Project) \<times> Project world" where
  "CreateProjekRepository req projek w =
     (if repo_fails req OpCreate then (Inl ErrDatabase, log_event (Repo OpCreate False) w)
      else let p = projek\<lparr>proj_ID := gen_id req, proj_CreatedAt := now req,
                          proj_UpdatedAt := now req\<rparr>
           in (Inr p, log_event (Repo OpCreate True) (w\<lparr>rows := rows w @ [p]\<rparr>)))"

definition GetProjekRepository ::
  "'f request \<Rightarrow> uuid \<Rightarrow> Project world \<Rightarrow> (repo_error + Project) \<times> Project world" where
  "GetProjekRepository req i w =
     (if repo_fails req OpGet then (Inl ErrDatabase, log_event (Repo OpGet False) w)
      else case find (\<lambda>p. proj_ID p = i) (rows w) of
        None \<Rightarrow> (Inl ErrNotFound, log_event (Repo OpGet False) w)
      | Some p \<Rightarrow> (Inr p, log_event (Repo OpGet True) w))"

text \<open>
  \<open>UPDATE ... WHERE id = $9 RETURNING updated_at\<close>: every column but the id
  and the creation time is overwritten; no matching row is \<open>sql.ErrNoRows\<close>.
\<close>

definition UpdateProjekRepository ::
  "'f request \<Rightarrow> Project \<Rightarrow> Project world \<Rightarrow> (repo_error + Project) \<times> Project world" where
  "UpdateProjekRepository req projek w =
     (if repo_fails req OpUpdate then (Inl ErrDatabase, log_event (Repo OpUpdate False) w)
      else if proj_ID projek \<notin> set (map proj_ID (rows w))
        then (Inl ErrNoRows, log_event (Repo OpUpdate False) w)
      else (Inr (projek\<lparr>proj_UpdatedAt := now req\<rparr>),
            log_event (Repo OpUpdate True)
              (w\<lparr>rows := map (\<lambda>r. if proj_ID r = proj_ID projek
                                    then projek\<lparr>proj_CreatedAt := proj_CreatedAt r,
                                                proj_UpdatedAt := now req\<rparr>
                                    else r) (rows w)\<rparr>)))"

text \<open>\<open>DELETE ... WHERE id = $1\<close>, with the check of the affected rows.\<close>

definition DeleteProjekRepository ::
  "'f request \<Rightarrow> uuid \<Rightarrow> Project world \<Rightarrow> (repo_error + unit) \<times> Project world" where
  "DeleteProjekRepository req i w =
     (if repo_fails req OpDelete then (Inl ErrDatabase, log_event (Repo OpDelete False) w)
      else let rowsAffected = length (filter (\<lambda>p. proj_ID p = i) (rows w)) in
        if rowsAffected = 0 then (Inl ErrNotFound, log_event (Repo OpDelete False) w)
        else (Inr (), log_event (Repo OpDelete True)
                        (w\<lparr>rows := filter (\<lambda>p. proj_ID p \<noteq> i) (rows w)\<rparr>)))"

section \<open>Projects: service\<close>

definition validateFile_project :: "FileHeader \<Rightarrow> svc_error option" where
  "validateFile_project file =
     (let maxSize = 10 * 1024 * 1024 in
      if Size file > maxSize then Some (Message ''ukuran file maksimal 10MB'')
      else let ext = strings_ToLower (filepath_Ext (Filename file)) in
        if ext \<notin> {''.jpg'', ''.jpeg'', ''.png'', ''.webp''}
        then Some (Message ''tipe file tidak diizinkan. File yang diizinkan: jpg, jpeg, png, webp'')
        else None)"

text \<open>
  The last part of \<open>CreateProjekWithImageService\<close>: defaults, the entity, the
  repository call and the cleanup when it fails.  \<open>file\<close> is the uploaded file
  (\<open>None\<close> for nil) and \<open>imageURL\<close> the URL set by the upload part.
\<close>

definition CreateProjekWithImageService_persist ::
  "string \<Rightarrow> ProjectForm request \<Rightarrow> ProjectForm \<Rightarrow> FileHeader option \<Rightarrow> string
     \<Rightarrow> Project world \<Rightarrow> (svc_error + Project) \<times> Project world" where
  "CreateProjekWithImageService_persist uploadPath req form0 file imageURL w =
     (let form1 = (if pf_Status form0 = [] then form0\<lparr>pf_Status := ''published''\<rparr> else form0);
          form = (if pf_DemoURL form1 = [] then form1\<lparr>pf_DemoURL := ''#''\<rparr> else form1);
          project = empty_Project\<lparr>proj_Title := pf_Title form,
            proj_Description := pf_Description form, proj_ImageURL := imageURL,
            proj_DemoURL := pf_DemoURL form, proj_CodeURL := pf_CodeURL form,
            proj_DisplayOrder := pf_DisplayOrder form, proj_IsFeatured := pf_IsFeatured form,
            proj_Status := pf_Status form\<rparr>
      in case CreateProjekRepository req project w of
           (Inl err, w1) \<Rightarrow>
             (Inl (Message ''gagal menyimpan data projek''),
              if file \<noteq> None \<and> imageURL \<noteq> ''#''
              then snd (os_Remove req (filepath_Join uploadPath (filepath_Base imageURL)) w1)
              else w1)
         | (Inr result, w1) \<Rightarrow> (Inr result, w1))"

definition CreateProjekWithImageService ::
  "string \<Rightarrow> ProjectForm request \<Rightarrow> Project world \<Rightarrow> (svc_error + Project) \<times> Project world" where
  "CreateProjekWithImageService uploadPath req w =
     (case bound_form req of
        None \<Rightarrow> (Inl (Message ''gagal binding data''), w)
      | Some form \<Rightarrow>
          if pf_Title form = [] then (Inl (Message ''judul projek harus diisi''), w)
          else if pf_Description form = [] then (Inl (Message ''deskripsi projek harus diisi''), w)
          else if pf_CodeURL form = [] then (Inl (Message ''URL kode projek harus diisi''), w)
          else (case form_file req of
            FormFileError \<Rightarrow> (Inl (Message ''gagal mengambil file''), w)
          | MissingFile \<Rightarrow> CreateProjekWithImageService_persist uploadPath req form None ''#'' w
          | FormFile file \<Rightarrow>
              (case validateFile_project file of
                 Some err \<Rightarrow> (Inl err, w)
               | None \<Rightarrow>
                   (let ext = filepath_Ext (Filename file);
                        fileName = ''project_'' @ new_uuid req @ ext;
                        filePath = filepath_Join uploadPath fileName;
                        (made, w1) = os_MkdirAll req uploadPath w
                    in if \<not> made then (Inl (Message ''gagal membuat folder upload''), w1)
                       else let (saved, w2) = ctx_SaveUploadedFile req filePath w1
                         in if \<not> saved then (Inl (Message ''gagal menyimpan file''), w2)
                            else if \<not> os_Stat_exists filePath w2
                              then (Inl (Message ''file gagal disimpan''), w2)
                            else CreateProjekWithImageService_persist uploadPath req form
                                   (Some file) (''/uploads/projects/'' @ fileName) w2))))"

text \<open>
  The part of \<open>UpdateProjekService\<close> after the upload: binding, merging of the
  form into the existing project, the repository call and the cleanup.
\<close>

definition UpdateProjekService_merge :: "ProjectForm \<Rightarrow> string \<Rightarrow> Project \<Rightarrow> Project" where
  "UpdateProjekService_merge form imageURL existingProject =
     (let p1 = (if pf_Title form \<noteq> [] then existingProject\<lparr>proj_Title := pf_Title form\<rparr>
                else existingProject);
          p2 = (if pf_Description form \<noteq> [] then p1\<lparr>proj_Description := pf_Description form\<rparr>
                else p1);
          p3 = (if pf_DemoURL form \<noteq> [] then p2\<lparr>proj_DemoURL := pf_DemoURL form\<rparr> else p2);
          p4 = (if pf_CodeURL form \<noteq> [] then p3\<lparr>proj_CodeURL := pf_CodeURL form\<rparr> else p3);
          p5 = (if pf_DisplayOrder form \<noteq> 0 then p4\<lparr>proj_DisplayOrder := pf_DisplayOrder form\<rparr>
                else p4);
          p6 = p5\<lparr>proj_IsFeatured := pf_IsFeatured form\<rparr>;
          p7 = (if pf_Status form \<noteq> [] then p6\<lparr>proj_Status := pf_Status form\<rparr> else p6)
      in p7\<lparr>proj_ImageURL := imageURL\<rparr>)"

definition UpdateProjekService_finish ::
  "string \<Rightarrow> ProjectForm request \<Rightarrow> Project \<Rightarrow> FileHeader option \<Rightarrow> string
     \<Rightarrow> Project world \<Rightarrow> (svc_error + Project) \<times> Project world" where
  "UpdateProjekService_finish uploadPath req existingProject file imageURL w =
     (case bound_form req of
        None \<Rightarrow>
          (Inl (Message ''gagal binding data''),
           if file \<noteq> None
           then snd (os_Remove req (filepath_Join uploadPath (filepath_Base imageURL)) w)
           else w)
      | Some form \<Rightarrow>
          (case UpdateProjekRepository req
                  (UpdateProjekService_merge form imageURL existingProject) w of
             (Inl err, w1) \<Rightarrow>
               (Inl (Message ''gagal mengupdate projek''),
                if file \<noteq> None
                then snd (os_Remove req (filepath_Join uploadPath (filepath_Base imageURL)) w1)
                else w1)
           | (Inr result, w1) \<Rightarrow> (Inr result, w1)))"

definition UpdateProjekService ::
  "string \<Rightarrow> ProjectForm request \<Rightarrow> Project world \<Rightarrow> (svc_error + Project) \<times> Project world" where
  "UpdateProjekService uploadPath req w =
     (case param_id req of
        None \<Rightarrow> (Inl (Message ''ID projek tidak valid''), w)
      | Some i \<Rightarrow>
          (case GetProjekRepository req i w of
             (Inl err, w1) \<Rightarrow> (Inl (Message ''projek tidak ditemukan''), w1)
           | (Inr existingProject, w1) \<Rightarrow>
               (let oldImageURL = proj_ImageURL existingProject in
                case form_file req of
                  FormFileError \<Rightarrow> (Inl (Message ''gagal mengambil file''), w1)
                | MissingFile \<Rightarrow>
                    UpdateProjekService_finish uploadPath req existingProject None
                      (proj_ImageURL existingProject) w1
                | FormFile file \<Rightarrow>
                    (case validateFile_project file of
                       Some err \<Rightarrow> (Inl err, w1)
                     | None \<Rightarrow>
                         (let ext = filepath_Ext (Filename file);
                              fileName = ''project_'' @ new_uuid req @ ext;
                              filePath = filepath_Join uploadPath fileName;
                              (saved, w2) = ctx_SaveUploadedFile req filePath w1
                          in if \<not> saved then (Inl (Message ''gagal menyimpan file''), w2)
                             else let imageURL = ''/uploads/projects/'' @ fileName;
                                      w3 = (if oldImageURL \<noteq> [] \<and> oldImageURL \<noteq> ''#''
                                            then snd (os_Remove req
                                                   (filepath_Join uploadPath
                                                      (filepath_Base oldImageURL)) w2)
                                            else w2)
                               in UpdateProjekService_finish uploadPath req existingProject
                                    (Some file) imageURL w3)))))"

text \<open>
  The best-effort removal of the stored file at the end of a delete: the file
  is removed when it is there, and a failure is only printed.
\<close>

definition remove_if_exists :: "'f request \<Rightarrow> string \<Rightarrow> 'e world \<Rightarrow> 'e world" where
  "remove_if_exists req filePath w =
     (if os_Stat_exists filePath w then snd (os_Remove req filePath w) else w)"

definition DeleteProjekService ::
  "string \<Rightarrow> ProjectForm request \<Rightarrow> Project world \<Rightarrow> (svc_error + unit) \<times> Project world" where
  "DeleteProjekService uploadPath req w =
     (case param_id req of
        None \<Rightarrow> (Inl (Message ''ID projek tidak valid''), w)
      | Some i \<Rightarrow>
          (case GetProjekRepository req i w of
             (Inl err, w1) \<Rightarrow> (Inl (Message ''projek tidak ditemukan''), w1)
           | (Inr existingProject, w1) \<Rightarrow>
               (case DeleteProjekRepository req i w1 of
                  (Inl err, w2) \<Rightarrow> (Inl (Message ''gagal menghapus projek''), w2)
                | (Inr u, w2) \<Rightarrow>
                    (Inr (),
                     if proj_ImageURL existingProject \<noteq> []
                        \<and> proj_ImageURL existingProject \<noteq> ''#''
                     then remove_if_exists req
                            (filepath_Join uploadPath
                               (filepath_Base (proj_ImageURL existingProject))) w2
                     else w2))))"

section \<open>Skills and certificates: repository\<close>

text \<open>
  Modelled from the spec: the packages \<open>all/models\<close> and \<open>all/repo\<close> (the
  declarations of \<open>Skill\<close>, \<open>SkillForm\<close>, \<open>SkillUpdateRequest\<close> and
  \<open>Certificate\<close>, and the repositories behind \<open>SkillRepository\<close> and
  \<open>CertificateRepository\<close>) are not part of the sources.  The fields are the
  ones the services read and write.  The repository is the simple one-table
  repository of the spec: \<open>GetByID\<close> reports an id that does not resolve as
  not found, \<open>Create\<close> appends the row with its generated columns, \<open>Update\<close>
  overwrites the row with the same id, \<open>Delete\<close> removes it; each call may
  fail in the database.
\<close>

record Skill =
  sk_ID :: uuid
  sk_Name :: string
  sk_Value :: int
  sk_IconURL :: string
  sk_Category :: string
  sk_DisplayOrder :: int
  sk_IsFeatured :: bool
  sk_CreatedAt :: nat
  sk_UpdatedAt :: nat

record SkillForm =
  sf_Name :: string
  sf_Value :: int
  sf_Category :: string
  sf_DisplayOrder :: int
  sf_IsFeatured :: bool

record SkillUpdateRequest =
  su_Name :: string
  su_Value :: int
  su_IconURL :: string
  su_Category :: string
  su_DisplayOrder :: int
  su_IsFeatured :: bool

record Certificate =
  cert_ID :: uuid
  cert_Name :: string
  cert_ImageURL :: string
  cert_IssueDate :: nat
  cert_Issuer :: string
  cert_CredentialURL :: string
  cert_DisplayOrder :: int
  cert_CreatedAt :: nat

definition repo_GetByID ::
  "('e \<Rightarrow> uuid) \<Rightarrow> 'f request \<Rightarrow> uuid \<Rightarrow> 'e world \<Rightarrow> (repo_error + 'e) \<times> 'e world" where
  "repo_GetByID ident req i w =
     (if repo_fails req OpGet then (Inl ErrDatabase, log_event (Repo OpGet False) w)
      else case find (\<lambda>e. ident e = i) (rows w) of
        None \<Rightarrow> (Inl ErrNotFound, log_event (Repo OpGet False) w)
      | Some e \<Rightarrow> (Inr e, log_event (Repo OpGet True) w))"

definition repo_Create ::
  "(uuid \<Rightarrow> nat \<Rightarrow> 'e \<Rightarrow> 'e) \<Rightarrow> 'f request \<Rightarrow> 'e \<Rightarrow> 'e world
     \<Rightarrow> (repo_error + 'e) \<times> 'e world" where
  "repo_Create generated req e w =
     (if repo_fails req OpCreate then (Inl ErrDatabase, log_event (Repo OpCreate False) w)
      else let e' = generated (gen_id req) (now req) e
           in (Inr e', log_event (Repo OpCreate True) (w\<lparr>rows := rows w @ [e']\<rparr>)))"

definition skill_generated :: "uuid \<Rightarrow> nat \<Rightarrow> Skill \<Rightarrow> Skill" where
  "skill_generated i t s = s\<lparr>sk_ID := i, sk_CreatedAt := t, sk_UpdatedAt := t\<rparr>"

definition repo_Update ::
  "('e \<Rightarrow> uuid) \<Rightarrow> 'f request \<Rightarrow> 'e \<Rightarrow> 'e world \<Rightarrow> (repo_error + unit) \<times> 'e world" where
  "repo_Update ident req e w =
     (if repo_fails req OpUpdate then (Inl ErrDatabase, log_event (Repo OpUpdate False) w)
      else (Inr (), log_event (Repo OpUpdate True)
                      (w\<lparr>rows := map (\<lambda>r. if ident r = ident e then e else r) (rows w)\<rparr>)))"

definition repo_Delete ::
  "('e \<Rightarrow> uuid) \<Rightarrow> 'f request \<Rightarrow> uuid \<Rightarrow> 'e world \<Rightarrow> (repo_error + unit) \<times> 'e world" where
  "repo_Delete ident req i w =
     (if repo_fails req OpDelete then (Inl ErrDatabase, log_event (Repo OpDelete False) w)
      else (Inr (), log_event (Repo OpDelete True)
                      (w\<lparr>rows := filter (\<lambda>r. ident r \<noteq> i) (rows w)\<rparr>)))"

section \<open>Skills: service\<close>

text \<open>
  The services answer with a \<open>SkillResponse\<close>, a field-by-field copy of the
  skill; the model answers with the skill.
\<close>

definition validateFile_skill :: "FileHeader \<Rightarrow> svc_error option" where
  "validateFile_skill file =
     (let maxSize = 5 * 1024 * 1024 in
      if Size file > maxSize then Some (Message ''ukuran file maksimal 5MB'')
      else let ext = strings_ToLower (filepath_Ext (Filename file)) in
        if ext \<notin> {''.jpg'', ''.jpeg'', ''.png'', ''.webp'', ''.svg'', ''.ico''}
        then Some (Message
          ''tipe file tidak diizinkan. File yang diizinkan: jpg, jpeg, png, webp, svg, ico'')
        else None)"

definition CreateWithIcon_persist ::
  "string \<Rightarrow> SkillForm request \<Rightarrow> SkillForm \<Rightarrow> FileHeader option \<Rightarrow> string
     \<Rightarrow> Skill world \<Rightarrow> (svc_error + Skill) \<times> Skill world" where
  "CreateWithIcon_persist uploadPath req form0 file iconURL w =
     (let form = (if sf_Category form0 = [] then form0\<lparr>sf_Category := ''programming''\<rparr>
                  else form0);
          skill = \<lparr>sk_ID = uuid_Nil, sk_Name = sf_Name form, sk_Value = sf_Value form,
                   sk_IconURL = iconURL, sk_Category = sf_Category form,
                   sk_DisplayOrder = sf_DisplayOrder form, sk_IsFeatured = sf_IsFeatured form,
                   sk_CreatedAt = 0, sk_UpdatedAt = 0\<rparr>
      in case repo_Create skill_generated req skill w of
           (Inl err, w1) \<Rightarrow>
             (Inl (Message ''gagal menyimpan data skill''),
              if file \<noteq> None \<and> iconURL \<noteq> []
              then snd (os_Remove req (filepath_Join uploadPath (filepath_Base iconURL)) w1)
              else w1)
         | (Inr created, w1) \<Rightarrow> (Inr created, w1))"

definition CreateWithIcon ::
  "string \<Rightarrow> SkillForm request \<Rightarrow> Skill world \<Rightarrow> (svc_error + Skill) \<times> Skill world" where
  "CreateWithIcon uploadPath req w =
     (case bound_form req of
        None \<Rightarrow> (Inl (Message ''gagal binding data''), w)
      | Some form \<Rightarrow>
          if sf_Name form = [] then (Inl (Message ''nama skill harus diisi''), w)
          else if sf_Value form < 0 \<or> sf_Value form > 100
            then (Inl (Message ''nilai skill harus antara 0-100''), w)
          else (case form_file req of
            FormFileError \<Rightarrow> (Inl (Message ''gagal mengambil file icon''), w)
          | MissingFile \<Rightarrow> CreateWithIcon_persist uploadPath req form None [] w
          | FormFile file \<Rightarrow>
              (case validateFile_skill file of
                 Some err \<Rightarrow> (Inl err, w)
               | None \<Rightarrow>
                   (let ext = filepath_Ext (Filename file);
                        fileName = ''skill_'' @ new_uuid req @ ext;
                        filePath = filepath_Join uploadPath fileName;
                        (saved, w1) = ctx_SaveUploadedFile req filePath w
                    in if \<not> saved then (Inl (Message ''gagal menyimpan file icon''), w1)
                       else CreateWithIcon_persist uploadPath req form (Some file)
                              (''/uploads/skills/'' @ fileName) w1))))"

definition Update_merge :: "SkillUpdateRequest \<Rightarrow> nat \<Rightarrow> Skill \<Rightarrow> Skill" where
  "Update_merge r t existing =
     (let s1 = (if su_Name r \<noteq> [] then existing\<lparr>sk_Name := su_Name r\<rparr> else existing);
          s2 = (if su_Value r \<noteq> 0 then s1\<lparr>sk_Value := su_Value r\<rparr> else s1)
      in s2\<lparr>sk_IconURL := su_IconURL r, sk_Category := su_Category r,
             sk_DisplayOrder := su_DisplayOrder r, sk_IsFeatured := su_IsFeatured r,
             sk_UpdatedAt := t\<rparr>)"

definition Update ::
  "SkillUpdateRequest request \<Rightarrow> Skill world \<Rightarrow> (svc_error + Skill) \<times> Skill world" where
  "Update req w =
     (case param_id req of
        None \<Rightarrow> (Inl (Message ''invalid skill ID''), w)
      | Some i \<Rightarrow>
          (case repo_GetByID sk_ID req i w of
             (Inl err, w1) \<Rightarrow> (Inl (RepoError err), w1)
           | (Inr existing0, w1) \<Rightarrow>
               (case bound_form req of
                  None \<Rightarrow> (Inl BindError, w1)
                | Some r \<Rightarrow>
                    (let existing = Update_merge r (now req) existing0 in
                     case repo_Update sk_ID req existing w1 of
                       (Inl err, w2) \<Rightarrow> (Inl (RepoError err), w2)
                     | (Inr u, w2) \<Rightarrow> (Inr existing, w2)))))"

definition UpdateWithIcon_merge :: "SkillForm \<Rightarrow> nat \<Rightarrow> Skill \<Rightarrow> Skill" where
  "UpdateWithIcon_merge form t existing =
     (let s1 = (if sf_Name form \<noteq> [] then existing\<lparr>sk_Name := sf_Name form\<rparr> else existing);
          s2 = (if sf_Value form \<noteq> 0 then s1\<lparr>sk_Value := sf_Value form\<rparr> else s1);
          s3 = (if sf_Category form \<noteq> [] then s2\<lparr>sk_Category := sf_Category form\<rparr> else s2)
      in s3\<lparr>sk_DisplayOrder := sf_DisplayOrder form, sk_IsFeatured := sf_IsFeatured form,
             sk_UpdatedAt := t\<rparr>)"

definition UpdateWithIcon_finish ::
  "string \<Rightarrow> SkillForm request \<Rightarrow> SkillForm \<Rightarrow> FileHeader option \<Rightarrow> Skill
     \<Rightarrow> Skill world \<Rightarrow> (svc_error + Skill) \<times> Skill world" where
  "UpdateWithIcon_finish uploadPath req form file existing0 w =
     (let existing = UpdateWithIcon_merge form (now req) existing0 in
      case repo_Update sk_ID req existing w of
        (Inl err, w1) \<Rightarrow>
          (Inl (Message ''gagal mengupdate data skill''),
           if file \<noteq> None
           then snd (os_Remove req
                  (filepath_Join uploadPath (filepath_Base (sk_IconURL existing))) w1)
           else w1)
      | (Inr u, w1) \<Rightarrow> (Inr existing, w1))"

definition UpdateWithIcon ::
  "string \<Rightarrow> SkillForm request \<Rightarrow> Skill world \<Rightarrow> (svc_error + Skill) \<times> Skill world" where
  "UpdateWithIcon uploadPath req w =
     (case param_id req of
        None \<Rightarrow> (Inl (Message ''invalid skill ID''), w)
      | Some i \<Rightarrow>
          (case repo_GetByID sk_ID req i w of
             (Inl err, w1) \<Rightarrow> (Inl (RepoError err), w1)
           | (Inr existing, w1) \<Rightarrow>
               (case bound_form req of
                  None \<Rightarrow> (Inl (Message ''gagal binding data''), w1)
                | Some form \<Rightarrow>
                    (case form_file req of
                       FormFileError \<Rightarrow> (Inl (Message ''gagal mengambil file icon''), w1)
                     | MissingFile \<Rightarrow>
                         UpdateWithIcon_finish uploadPath req form None existing w1
                     | FormFile file \<Rightarrow>
                         (case validateFile_skill file of
                            Some err \<Rightarrow> (Inl err, w1)
                          | None \<Rightarrow>
                              (let ext = filepath_Ext (Filename file);
                                   fileName = ''skill_'' @ new_uuid req @ ext;
                                   filePath = filepath_Join uploadPath fileName;
                                   (saved, w2) = ctx_SaveUploadedFile req filePath w1
                               in if \<not> saved
                                  then (Inl (Message ''gagal menyimpan file icon''), w2)
                                  else let w3 = (if sk_IconURL existing \<noteq> []
                                                 then snd (os_Remove req
                                                        (filepath_Join uploadPath
                                                           (filepath_Base (sk_IconURL existing)))
                                                        w2)
                                                 else w2)
                                    in UpdateWithIcon_finish uploadPath req form (Some file)
                                         (existing\<lparr>sk_IconURL := ''/uploads/skills/'' @ fileName\<rparr>)
                                         w3))))))"

definition Delete ::
  "string \<Rightarrow> SkillForm request \<Rightarrow> Skill world \<Rightarrow> (svc_error + unit) \<times> Skill world" where
  "Delete uploadPath req w =
     (case param_id req of
        None \<Rightarrow> (Inl (Message ''invalid skill ID''), w)
      | Some i \<Rightarrow>
          (case repo_GetByID sk_ID req i w of
             (Inl err, w1) \<Rightarrow> (Inl (RepoError err), w1)
           | (Inr skill, w1) \<Rightarrow>
               (let w2 = (if sk_IconURL skill \<noteq> []
                          then snd (os_Remove req
                                 (filepath_Join uploadPath (filepath_Base (sk_IconURL skill))) w1)
                          else w1)
                in case repo_Delete sk_ID req i w2 of
                     (Inl err, w3) \<Rightarrow> (Inl (RepoError err), w3)
                   | (Inr u, w3) \<Rightarrow> (Inr (), w3))))"

section \<open>Certificates: service\<close>

definition Delete_certificate ::
  "string \<Rightarrow> unit request \<Rightarrow> Certificate world \<Rightarrow> (svc_error + unit) \<times> Certificate world" where
  "Delete_certificate uploadPath req w =
     (case param_id req of
        None \<Rightarrow> (Inl (Message ''ID sertif tidak valid''), w)
      | Some i \<Rightarrow>
          (case repo_GetByID cert_ID req i w of
             (Inl err, w1) \<Rightarrow> (Inl (Message ''sertif tidak ditemukan''), w1)
           | (Inr existingsertif, w1) \<Rightarrow>
               (case repo_Delete cert_ID req i w1 of
                  (Inl err, w2) \<Rightarrow> (Inl (Message ''gagal menghapus sertif''), w2)
                | (Inr u, w2) \<Rightarrow>
                    (Inr (),
                     if cert_ImageURL existingsertif \<noteq> []
                        \<and> cert_ImageURL existingsertif \<noteq> ''#''
                     then remove_if_exists req
                            (filepath_Join uploadPath
                               (filepath_Base (cert_ImageURL existingsertif))) w2
                     else w2))))"

section \<open>Sample inputs\<close>

definition sample_env :: tx_env where
  "sample_env = \<lparr>stmt_fails = (\<lambda>n. False), gen_uuid = (\<lambda>n. 100 + n)\<rparr>"

definition sample_db :: DB where
  "sample_db = \<lparr>portfolio_experiences = [], experience_responsibilities = [],
     experience_skills = []\<rparr>"

definition sample_experience :: Experience where
  "sample_experience =
     \<lparr>exp_ID = 0, exp_Title = ''Engineer'', exp_Company = ''Acme'', exp_Location = ''Bandung'',
      exp_StartYears = 2020, exp_EndYears = 2022, exp_CurrentJob = False, exp_DisplayOrder = 1,
      exp_CreatedAt = 0, exp_UpdatedAt = 0,
      Responsibilities =
        [\<lparr>resp_ID = 0, resp_ExperienceID = 0, resp_Description = ''review'',
          resp_DisplayOrder = 2, resp_CreatedAt = 0\<rparr>,
         \<lparr>resp_ID = 0, resp_ExperienceID = 0, resp_Description = ''build'',
          resp_DisplayOrder = 1, resp_CreatedAt = 0\<rparr>],
      Skills =
        [\<lparr>skill_ExperienceID = 0, skill_SkillName = ''go'', skill_DisplayOrder = 2\<rparr>,
         \<lparr>skill_ExperienceID = 0, skill_SkillName = ''sql'', skill_DisplayOrder = 1\<rparr>,
         \<lparr>skill_ExperienceID = 0, skill_SkillName = ''go'', skill_DisplayOrder = 3\<rparr>]\<rparr>"

text \<open>The sample experience as stored by a create into the empty database.\<close>

definition sample_created :: Experience where
  "sample_created =
     \<lparr>exp_ID = 100, exp_Title = ''Engineer'', exp_Company = ''Acme'', exp_Location = ''Bandung'',
      exp_StartYears = 2020, exp_EndYears = 2022, exp_CurrentJob = False, exp_DisplayOrder = 1,
      exp_CreatedAt = 0, exp_UpdatedAt = 0,
      Responsibilities =
        [\<lparr>resp_ID = 101, resp_ExperienceID = 100, resp_Description = ''review'',
          resp_DisplayOrder = 2, resp_CreatedAt = 0\<rparr>,
         \<lparr>resp_ID = 102, resp_ExperienceID = 100, resp_Description = ''build'',
          resp_DisplayOrder = 1, resp_CreatedAt = 0\<rparr>],
      Skills =
        [\<lparr>skill_ExperienceID = 100, skill_SkillName = ''go'', skill_DisplayOrder = 2\<rparr>,
         \<lparr>skill_ExperienceID = 100, skill_SkillName = ''sql'', skill_DisplayOrder = 1\<rparr>,
         \<lparr>skill_ExperienceID = 100, skill_SkillName = ''go'', skill_DisplayOrder = 3\<rparr>]\<rparr>"

definition sample_db_created :: DB where
  "sample_db_created =
     \<lparr>portfolio_experiences = [experience_row sample_created],
      experience_responsibilities = Responsibilities sample_created,
      experience_skills =
        [\<lparr>skill_ExperienceID = 100, skill_SkillName = ''go'', skill_DisplayOrder = 2\<rparr>,
         \<lparr>skill_ExperienceID = 100, skill_SkillName = ''sql'', skill_DisplayOrder = 1\<rparr>]\<rparr>"

text \<open>What reading the created experience back returns.\<close>

definition sample_fetched :: Experience where
  "sample_fetched =
     \<lparr>exp_ID = 100, exp_Title = ''Engineer'', exp_Company = ''Acme'', exp_Location = ''Bandung'',
      exp_StartYears = 2020, exp_EndYears = 2022, exp_CurrentJob = False, exp_DisplayOrder = 1,
      exp_CreatedAt = 0, exp_UpdatedAt = 0,
      Responsibilities =
        [\<lparr>resp_ID = 102, resp_ExperienceID = 100, resp_Description = ''build'',
          resp_DisplayOrder = 1, resp_CreatedAt = 0\<rparr>,
         \<lparr>resp_ID = 101, resp_ExperienceID = 100, resp_Description = ''review'',
          resp_DisplayOrder = 2, resp_CreatedAt = 0\<rparr>],
      Skills =
        [\<lparr>skill_ExperienceID = 100, skill_SkillName = ''go'', skill_DisplayOrder = 2\<rparr>,
         \<lparr>skill_ExperienceID = 100, skill_SkillName = ''sql'', skill_DisplayOrder = 1\<rparr>]\<rparr>"

text \<open>An update of the created experience with one responsibility and no skill.\<close>

definition sample_update :: Experience where
  "sample_update = sample_created\<lparr>exp_Title := ''Lead'',
     Responsibilities := [\<lparr>resp_ID = 101, resp_ExperienceID = 0, resp_Description = ''plan'',
          resp_DisplayOrder = 1, resp_CreatedAt = 0\<rparr>],
     Skills := []\<rparr>"

definition sample_updated :: Experience where
  "sample_updated =
     \<lparr>exp_ID = 100, exp_Title = ''Lead'', exp_Company = ''Acme'', exp_Location = ''Bandung'',
      exp_StartYears = 2020, exp_EndYears = 2022, exp_CurrentJob = False, exp_DisplayOrder = 1,
      exp_CreatedAt = 0, exp_UpdatedAt = 0,
      Responsibilities =
        [\<lparr>resp_ID = 101, resp_ExperienceID = 100, resp_Description = ''plan'',
          resp_DisplayOrder = 1, resp_CreatedAt = 0\<rparr>],
      Skills = []\<rparr>"

definition sample_db_updated :: DB where
  "sample_db_updated =
     \<lparr>portfolio_experiences = [experience_row sample_updated],
      experience_responsibilities = Responsibilities sample_updated,
      experience_skills = []\<rparr>"

section \<open>Facts about the string helpers\<close>

lemma HasPrefix_append: "strings_HasPrefix (p @ r) p"
  by (induction p) auto

lemma Index_skip:
  "c \<notin> set a \<Longrightarrow> strings_Index (a @ (c # m) @ r) (c # m) = Some (length a)"
proof (induction a)
  case Nil
  have "strings_HasPrefix ((c # m) @ r) (c # m)" by (rule HasPrefix_append)
  then show ?case by simp
next
  case (Cons x xs)
  then show ?case by auto
qed

lemma HasPrefix_first_sep:
  "strings_HasPrefix (h @ c # t) q \<Longrightarrow> c \<notin> set h \<Longrightarrow> c \<in> set q \<Longrightarrow>
   takeWhile (\<lambda>x. x \<noteq> c) q = h"
proof (induction h arbitrary: q)
  case Nil
  then show ?case by (cases q) auto
next
  case (Cons x xs)
  then show ?case by (cases q) auto
qed

lemma Index_url:
  assumes "CHR ''/'' \<notin> set host"
  shows "strings_Index (''https://'' @ host @ ''/storage/v1/object/public/'' @ r)
           ''/storage/v1/object/public/'' = Some (8 + length host)"
proof -
  let ?m = "''/storage/v1/object/public/''"
  have np: "\<not> strings_HasPrefix (host @ ?m @ r) ''storage/v1/object/public/''"
  proof
    assume h: "strings_HasPrefix (host @ ?m @ r) ''storage/v1/object/public/''"
    have "takeWhile (\<lambda>x. x \<noteq> CHR ''/'') ''storage/v1/object/public/'' = host"
      using HasPrefix_first_sep[of host "CHR ''/''" "''storage/v1/object/public/'' @ r"
              "''storage/v1/object/public/''"] h assms
      by simp
    then have "host = ''storage''" by simp
    with h show False by simp
  qed
  have sk: "strings_Index (host @ ?m @ r) ?m = Some (length host)"
    using Index_skip[OF assms, of "''storage/v1/object/public/''" r] by simp
  show ?thesis using np sk by simp
qed

lemma SplitN_2_bucket:
  assumes "CHR ''/'' \<notin> set b"
  shows "strings_SplitN_2 (b @ ''/'' @ q) ''/'' = [b, q]"
proof -
  have "strings_Index (b @ ''/'' @ q) ''/'' = Some (length b)"
    using Index_skip[OF assms, of "[]" q] by simp
  then show ?thesis by (simp add: strings_SplitN_2_def)
qed

lemma TrimPrefix_none: "\<not> strings_HasPrefix p q \<Longrightarrow> strings_TrimPrefix p q = p"
  by (simp add: strings_TrimPrefix_def)

lemma extract_after_marker:
  assumes "CHR ''/'' \<notin> set host" and "CHR ''/'' \<notin> set b"
  shows "extractFilePathFromURL s
           (''https://'' @ host @ ''/storage/v1/object/public/'' @ b @ ''/'' @ q) = q"
proof -
  have "strings_Index (''https://'' @ host @ ''/storage/v1/object/public/'' @ (b @ ''/'' @ q))
          ''/storage/v1/object/public/'' = Some (8 + length host)"
    by (rule Index_url[OF assms(1)])
  moreover have "strings_SplitN_2 (b @ CHR ''/'' # q) ''/'' = [b, q]"
    using SplitN_2_bucket[OF assms(2), of q] by simp
  ultimately show ?thesis
    by (simp add: extractFilePathFromURL_def)
qed

lemma extract_base_after_marker:
  assumes "CHR ''/'' \<notin> set host" and "CHR ''/'' \<notin> set (bucket s)"
  shows "extractFilePathFromURL_base s
           (''https://'' @ host @ ''/storage/v1/object/public/'' @ bucket s @ ''/'' @ q) = q"
proof -
  have "strings_Index
          (''https://'' @ host @ ''/storage/v1/object/public/'' @ (bucket s @ ''/'' @ q))
          ''/storage/v1/object/public/'' = Some (8 + length host)"
    by (rule Index_url[OF assms(1)])
  moreover have "strings_SplitN_2 (bucket s @ CHR ''/'' # q) ''/'' = [bucket s, q]"
    using SplitN_2_bucket[OF assms(2), of q] by simp
  ultimately show ?thesis
    by (simp add: extractFilePathFromURL_base_def)
qed

section \<open>Facts about the experience repository\<close>





lemma insert_skills_ignore_other:
  "\<forall>s\<in>set ss. skill_ExperienceID s = i \<Longrightarrow> j \<noteq> i \<Longrightarrow>
   filter (\<lambda>s. skill_ExperienceID s = j) (insert_skills_ignore tbl ss)
     = filter (\<lambda>s. skill_ExperienceID s = j) tbl"
  by (induction ss arbitrary: tbl) auto










lemma stamp_skills_ExperienceID:
  "s \<in> set (stamp_skills i ss) \<Longrightarrow> skill_ExperienceID s = i"
  by (auto simp: stamp_skills_def)







lemmas sample_eval_defs =
        CreateExperienceWithRelations_def UpdateExperienceWithRelations_def
        DeleteExperienceWithRelations_def Transaction_def
        CreateExperienceWithRelations_body_def UpdateExperienceWithRelations_body_def
        DeleteExperienceWithRelations_body_def gorm_Create_experience_def
        gorm_Save_experience_def gorm_Create_responsibilities_def
        gorm_Create_skills_OnConflict_def gorm_Delete_responsibilities_def
        gorm_Delete_skills_def gorm_Delete_experience_def
        GetExperienceByIDWithRelations_def find_experience_def
        sample_env_def sample_experience_def sample_db_def sample_created_def
        sample_db_created_def sample_fetched_def sample_update_def sample_updated_def
        sample_db_updated_def stamp_responsibilities_def stamp_skills_def assign_ids_def
        uuid_Nil_def experience_row_def skill_key_def Let_def


lemma sample_get:
  "GetExperienceByIDWithRelations sample_env 100 sample_db_created = Inr sample_fetched"
  by (simp add: sample_eval_defs)


section \<open>Replace-update of an experience\<close>



section \<open>Delete of an experience that does not exist\<close>

lemma DeleteProjekRepository_missing:
  assumes "\<not> repo_fails req OpDelete" and "i \<notin> set (map proj_ID (rows w))"
  shows "DeleteProjekRepository req i w = (Inl ErrNotFound, log_event (Repo OpDelete False) w)"
proof -
  have "filter (\<lambda>p. proj_ID p = i) (rows w) = []"
    using assms(2) by (auto simp: filter_empty_conv)
  then show ?thesis using assms(1) by (simp add: DeleteProjekRepository_def)
qed

text \<open>
  C4.  The claim asks for a not-found error when the id does not resolve.
  \<open>DeleteProjekRepository\<close> gives it (lemma above), but
  \<open>DeleteExperienceWithRelations\<close> does not: on a database that holds only
  the experience 100, deleting the id 7 returns success and leaves the
  database as it was.
\<close>

theorem delete_missing_experience_succeeds:
  "find_experience 7 sample_db_created = None
   \<and> DeleteExperienceWithRelations sample_env 7 sample_db_created
       = (Inr (), sample_db_created)"
  by (simp add: sample_eval_defs)

section \<open>Duplicate skills in one create\<close>



section \<open>Reading an experience back after its create\<close>




section \<open>Round trip between public URL and storage path\<close>

text \<open>
  C9 (as amended).  For a storage path \<open>p\<close> that is non-empty and has no leading
  slash, a non-empty bucket name that contains no slash, a non-empty project id
  that contains no slash, and the base URL \<open>https://<project id>.supabase.co\<close>,
  parsing the public URL of \<open>p\<close> gives back exactly \<open>p\<close>, in both variants of
  the storage service.
\<close>

theorem public_url_roundtrip:
  assumes "p \<noteq> []" and "\<not> strings_HasPrefix p ''/''"
    and "bucket s \<noteq> []" and "CHR ''/'' \<notin> set (bucket s)"
    and "projectID s \<noteq> []" and "CHR ''/'' \<notin> set (projectID s)"
    and "supabaseURL s = ''https://'' @ projectID s @ ''.supabase.co''"
  shows "extractFilePathFromURL s (GetPublicURL s p) = p
       \<and> extractFilePathFromURL_base s (GetPublicURL_base s p) = p"
proof -
  let ?host = "projectID s @ ''.supabase.co''"
  have host: "CHR ''/'' \<notin> set ?host" using assms(6) by simp
  have tp: "strings_TrimPrefix p ''/'' = p" by (rule TrimPrefix_none[OF assms(2)])
  have "GetPublicURL s p
          = ''https://'' @ ?host @ ''/storage/v1/object/public/'' @ bucket s @ ''/'' @ p"
    using assms(5) tp by (simp add: GetPublicURL_def)
  then have a: "extractFilePathFromURL s (GetPublicURL s p) = p"
    using extract_after_marker[OF host assms(4), of s p] by simp
  have "\<not> strings_HasSuffix (supabaseURL s) ''/''"
    by (simp add: assms(7) strings_HasSuffix_def)
  then have "strings_TrimSuffix (supabaseURL s) ''/'' = ''https://'' @ ?host"
    by (simp add: strings_TrimSuffix_def assms(7))
  then have "GetPublicURL_base s p
          = ''https://'' @ ?host @ ''/storage/v1/object/public/'' @ bucket s @ ''/'' @ p"
    using tp by (simp add: GetPublicURL_base_def)
  then have b: "extractFilePathFromURL_base s (GetPublicURL_base s p) = p"
    using extract_base_after_marker[OF host assms(4), of p] by simp
  from a b show ?thesis by simp
qed

theorem public_url_roundtrip_witness:
  "extractFilePathFromURL
     \<lparr>bucket = ''portfolio'', supabaseURL = ''https://proj.supabase.co'',
      projectID = ''proj'', apiKey = ''k''\<rparr>
     (GetPublicURL
        \<lparr>bucket = ''portfolio'', supabaseURL = ''https://proj.supabase.co'',
         projectID = ''proj'', apiKey = ''k''\<rparr> ''skills/uuid.png'') = ''skills/uuid.png''
   \<and> extractFilePathFromURL_base
     \<lparr>bucket = ''portfolio'', supabaseURL = ''https://proj.supabase.co'',
      projectID = ''proj'', apiKey = ''k''\<rparr>
     (GetPublicURL_base
        \<lparr>bucket = ''portfolio'', supabaseURL = ''https://proj.supabase.co'',
         projectID = ''proj'', apiKey = ''k''\<rparr> ''skills/uuid.png'') = ''skills/uuid.png''"
  using public_url_roundtrip[of "''skills/uuid.png''"
      "\<lparr>bucket = ''portfolio'', supabaseURL = ''https://proj.supabase.co'',
        projectID = ''proj'', apiKey = ''k''\<rparr>"]
  by simp

text \<open>
  The claim as first stated asks only for a non-empty bucket name.  With the
  bucket \<open>a/b\<close> the first variant returns \<open>b/skills/uuid.png\<close> and the second
  the empty string.
\<close>

theorem public_url_roundtrip_counterexample:
  "''skills/uuid.png'' \<noteq> []
   \<and> \<not> strings_HasPrefix ''skills/uuid.png'' ''/''
   \<and> bucket \<lparr>bucket = ''a/b'', supabaseURL = ''https://proj.supabase.co'',
        projectID = ''proj'', apiKey = ''k''\<rparr> \<noteq> []
   \<and> extractFilePathFromURL
       \<lparr>bucket = ''a/b'', supabaseURL = ''https://proj.supabase.co'',
        projectID = ''proj'', apiKey = ''k''\<rparr>
       (GetPublicURL
          \<lparr>bucket = ''a/b'', supabaseURL = ''https://proj.supabase.co'',
           projectID = ''proj'', apiKey = ''k''\<rparr> ''skills/uuid.png'') = ''b/skills/uuid.png''
   \<and> extractFilePathFromURL_base
       \<lparr>bucket = ''a/b'', supabaseURL = ''https://proj.supabase.co'',
        projectID = ''proj'', apiKey = ''k''\<rparr>
       (GetPublicURL_base
          \<lparr>bucket = ''a/b'', supabaseURL = ''https://proj.supabase.co'',
           projectID = ''proj'', apiKey = ''k''\<rparr> ''skills/uuid.png'') = []"
  by (simp add: extractFilePathFromURL_def GetPublicURL_def extractFilePathFromURL_base_def
        GetPublicURL_base_def strings_SplitN_2_def strings_TrimPrefix_def
        strings_TrimSuffix_def strings_HasSuffix_def)

end
